theory Spec2Isabelle
  imports Main
begin

section \<open>Data model of \<^verbatim>\<open>hcloud/ssh_key.go\<close>\<close>

text \<open>
  Go's \<^verbatim>\<open>int\<close> is modelled as \<^typ>\<open>int\<close>: the SSH key client never computes with an
  identifier or a page size, it only copies and prints them. A Go slice is either
  \<^verbatim>\<open>nil\<close> or a (possibly empty) sequence, so it is a \<^typ>\<open>'a list option\<close>; a pointer
  result that may be \<^verbatim>\<open>nil\<close> is an option too. An \<^verbatim>\<open>error\<close> result that may be
  \<^verbatim>\<open>nil\<close> is an \<open>error option\<close>.
\<close>

type_synonym 'a slice = "'a list option"

datatype error =
    ErrorNew string            \<comment> \<open>\<^verbatim>\<open>errors.New(msg)\<close>\<close>
  | LocalError string          \<comment> \<open>request construction or marshalling failure\<close>
  | TransportError string      \<comment> \<open>connection failure, timeout, undecodable body\<close>
  | APIError string string     \<comment> \<open>provider-reported error: code and message\<close>

text \<open>
  \<^verbatim>\<open>schema.SSHKey\<close> is declared in a package whose source is not part of the
  repository sources at hand; the four fields are the ones \<^verbatim>\<open>SSHKeyFromSchema\<close> reads.
  The conversion below is stated on the extensible record scheme, so it also covers a
  wire struct with further fields.
\<close>

record schema_SSHKey =
  ID :: int
  Name :: string
  Fingerprint :: string
  PublicKey :: string

record SSHKey =
  ID :: int
  Name :: string
  Fingerprint :: string
  PublicKey :: string

record SSHKeyCreateOpts =
  Name :: string
  PublicKey :: string

subsection \<open>\<^verbatim>\<open>SSHKeyFromSchema\<close>\<close>

definition SSHKeyFromSchema :: "'a schema_SSHKey_scheme \<Rightarrow> SSHKey" where
  "SSHKeyFromSchema s =
     \<lparr> SSHKey.ID = schema_SSHKey.ID s,
       SSHKey.Name = schema_SSHKey.Name s,
       SSHKey.Fingerprint = schema_SSHKey.Fingerprint s,
       SSHKey.PublicKey = schema_SSHKey.PublicKey s \<rparr>"

subsection \<open>\<^verbatim>\<open>SSHKeyCreateOpts.Validate\<close>\<close>

definition Validate :: "SSHKeyCreateOpts \<Rightarrow> error option" where
  "Validate o' =
     (if SSHKeyCreateOpts.Name o' = '''' then Some (ErrorNew ''missing name'')
      else if SSHKeyCreateOpts.PublicKey o' = '''' then Some (ErrorNew ''missing public key'')
      else None)"

section \<open>Formatting and query strings\<close>

text \<open>
  \<^verbatim>\<open>fmt.Sprintf("%d", i)\<close> and \<^verbatim>\<open>strconv.Itoa\<close>: the decimal numeral of an integer,
  with a leading minus sign for a negative one.
\<close>

definition digit :: "nat \<Rightarrow> char" where
  "digit d = ''0123456789'' ! (d mod 10)"

function decimal :: "nat \<Rightarrow> string" where
  "decimal n = (if n < 10 then [digit n] else decimal (n div 10) @ [digit (n mod 10)])"
  by pat_completeness auto
termination
  by (relation "measure (\<lambda>n. n)") auto

declare decimal.simps [simp del]

definition itoa :: "int \<Rightarrow> string" where
  "itoa i = (if i < 0 then CHR ''-'' # decimal (nat (- i)) else decimal (nat i))"

record ListOpts =
  Page :: int
  PerPage :: int

text \<open>\<^verbatim>\<open>SSHKeyListOpts\<close> embeds \<^verbatim>\<open>ListOpts\<close>: one field, named after its type.\<close>

record SSHKeyListOpts =
  ListOpts :: ListOpts

text \<open>
  Modelled from the spec: \<^verbatim>\<open>valuesForListOpts\<close> and the \<^verbatim>\<open>Encode\<close> method of its
  result are called by \<^verbatim>\<open>List\<close> but are not defined in the sources at hand. The spec says
  that the page number and the page size of the list options are translated to the query
  parameters \<^verbatim>\<open>page\<close> and \<^verbatim>\<open>per_page\<close>. The values are decimal numerals, which query
  escaping leaves as they are; the parameters are joined in key order.
\<close>

definition valuesForListOpts :: "ListOpts \<Rightarrow> (string \<times> string) list" where
  "valuesForListOpts opts =
     [(''page'', itoa (ListOpts.Page opts)), (''per_page'', itoa (ListOpts.PerPage opts))]"

text \<open>
  Modelled from the spec: the \<^verbatim>\<open>Encode\<close> method of the query values, \<^verbatim>\<open>key=value\<close> pairs
  joined by \<^verbatim>\<open>&\<close>.
\<close>

fun Encode :: "(string \<times> string) list \<Rightarrow> string" where
  "Encode [] = []"
| "Encode [(k, v)] = k @ ''='' @ v"
| "Encode ((k, v) # kvs) = k @ ''='' @ v @ ''&'' @ Encode kvs"

section \<open>The transport underneath the SSH key client\<close>

record Request =
  Method :: string
  Path :: string
  ReqBody :: "string option"

record HTTPReply =
  StatusCode :: int
  Body :: string

record Pagination =
  Page :: int
  LastPage :: int
  PerPage :: int
  TotalEntries :: int

text \<open>A \<^verbatim>\<open>Response\<close> wraps the raw HTTP response and the parsed pagination metadata.\<close>

record Response =
  Raw :: HTTPReply
  Meta :: "Pagination option"

text \<open>
  What the client does to the outside world is recorded in a trace: every call of
  \<^verbatim>\<open>NewRequest\<close> (with its method, path and body) and every request handed to the HTTP
  stack, oldest first.
\<close>

datatype event =
    Constructed string string "string option"
  | Sent Request

text \<open>
  The parts of \<^verbatim>\<open>*Client\<close> and of the libraries under it whose code is not in the sources
  at hand are parameters: request construction, the HTTP round trip (whose answer may
  depend on everything that happened before), and the JSON codec at the types
  \<^verbatim>\<open>ssh_key.go\<close> uses it at.
\<close>

record Client =
  newRequest :: "string \<Rightarrow> string \<Rightarrow> string option \<Rightarrow> error + Request"
  roundTrip :: "event list \<Rightarrow> Request \<Rightarrow> error + HTTPReply"
  parseMeta :: "string \<Rightarrow> Pagination option"
  parseError :: "string \<Rightarrow> string \<times> string"
  marshalCreate :: "string \<Rightarrow> string \<Rightarrow> error + string"
  unmarshalSSHKey :: "string \<Rightarrow> error + schema_SSHKey"
  unmarshalSSHKeys :: "string \<Rightarrow> error + schema_SSHKey slice"

text \<open>
  Modelled from the spec: the constant \<^verbatim>\<open>ErrorCodeNotFound\<close> is used by the repository's tests
  but declared outside the sources at hand. It is the provider-defined error code of the
  not-found condition; no theorem below depends on its spelling.
\<close>

definition ErrorCodeNotFound :: string where
  "ErrorCodeNotFound = ''not_found''"

definition Client_NewRequest ::
  "Client \<Rightarrow> string \<Rightarrow> string \<Rightarrow> string option \<Rightarrow> event list
     \<Rightarrow> (error + Request) \<times> event list" where
  "Client_NewRequest c method path body tr
     = (newRequest c method path body, tr @ [Constructed method path body])"

text \<open>
  Modelled from the spec: \<^verbatim>\<open>Client.Do\<close> is not in the sources at hand. The spec's transport
  issues the request, maps a failed exchange to a network error and a response whose
  status is not 2xx to an API error carrying the provider's code and message, and
  otherwise deserialises the response body into the caller's target. The target
  \<^verbatim>\<open>v\<close> is the pair of its decoder (\<open>None\<close> for a \<^verbatim>\<open>nil\<close> target) and its current value.
\<close>

definition Client_Do ::
  "Client \<Rightarrow> Request \<Rightarrow> (string \<Rightarrow> error + 'v) option \<Rightarrow> 'v \<Rightarrow> event list
     \<Rightarrow> (Response option \<times> error option \<times> 'v) \<times> event list" where
  "Client_Do c req dec v tr =
     (case roundTrip c tr req of
        Inl err \<Rightarrow> ((None, Some err, v), tr @ [Sent req])
      | Inr reply \<Rightarrow>
          (let resp = \<lparr> Raw = reply, Meta = parseMeta c (Body reply) \<rparr> in
           if 200 \<le> StatusCode reply \<and> StatusCode reply \<le> 299 then
             (case dec of
                None \<Rightarrow> ((Some resp, None, v), tr @ [Sent req])
              | Some d \<Rightarrow>
                  (case d (Body reply) of
                     Inl err \<Rightarrow> ((Some resp, Some err, v), tr @ [Sent req])
                   | Inr v' \<Rightarrow> ((Some resp, None, v'), tr @ [Sent req])))
           else
             (case parseError c (Body reply) of
                (code, message) \<Rightarrow>
                  ((Some resp, Some (APIError code message), v), tr @ [Sent req]))))"

text \<open>
  Modelled from the spec: \<^verbatim>\<open>Client.all\<close>, the pagination aggregator, is not in the sources
  at hand. The spec: call the page-fetch function with page 1, 2, 3, \<dots> until the
  response's pagination metadata says that the page is the last one or the response has
  no pagination metadata; stop at the first error and propagate it. The loop need not
  end (a provider may announce ever more pages), so not returning is the value \<open>None\<close>.
  The state \<open>'s\<close> holds what the page-fetch closure captures and changes.
\<close>

definition lastPageReached :: "Response option \<Rightarrow> bool" where
  "lastPageReached resp =
     (case resp of
        None \<Rightarrow> True
      | Some r \<Rightarrow>
          (case Meta r of
             None \<Rightarrow> True
           | Some p \<Rightarrow> Pagination.Page p = Pagination.LastPage p))"

text \<open>
  Modelled from the spec: the loop of \<^verbatim>\<open>Client.all\<close>, from a given page on. The spec does
  not say which response accompanies a propagated error; \<^verbatim>\<open>All\<close> discards it, and the model
  returns none. A page-fetch function that returns neither an error nor a response has
  delivered no pagination metadata, which ends the loop.
\<close>

partial_function (option) all_from ::
  "(int \<Rightarrow> 's \<Rightarrow> (Response option \<times> error option) \<times> 's) \<Rightarrow> int \<Rightarrow> 's
     \<Rightarrow> ((Response option \<times> error option) \<times> 's) option" where
  "all_from f page s =
     (case f page s of
        ((resp, Some err), s') \<Rightarrow> Some ((None, Some err), s')
      | ((resp, None), s') \<Rightarrow>
          if lastPageReached resp then Some ((resp, None), s')
          else all_from f (page + 1) s')"

declare all_from.simps [code]

text \<open>Modelled from the spec: \<^verbatim>\<open>Client.all\<close> starts the loop at page 1.\<close>

definition Client_all ::
  "(int \<Rightarrow> 's \<Rightarrow> (Response option \<times> error option) \<times> 's) \<Rightarrow> 's
     \<Rightarrow> ((Response option \<times> error option) \<times> 's) option" where
  "Client_all f s = all_from f 1 s"

section \<open>The SSH key client\<close>

text \<open>
  Every method takes the trace so far and returns its results with the trace extended.
  The context argument is only passed on to \<^verbatim>\<open>NewRequest\<close> and is left out.
\<close>

subsection \<open>Slices\<close>

definition elems :: "'a slice \<Rightarrow> 'a list" where
  "elems xs = (case xs of None \<Rightarrow> [] | Some ys \<Rightarrow> ys)"

text \<open>\<^verbatim>\<open>append(xs, ys...)\<close>: appending nothing to a \<^verbatim>\<open>nil\<close> slice gives \<^verbatim>\<open>nil\<close>.\<close>

definition append_slice :: "'a slice \<Rightarrow> 'a slice \<Rightarrow> 'a slice" where
  "append_slice xs ys =
     (case xs of
        None \<Rightarrow> (if elems ys = [] then None else Some (elems ys))
      | Some xs' \<Rightarrow> Some (xs' @ elems ys))"

definition zeroSSHKey :: schema_SSHKey where
  "zeroSSHKey =
     \<lparr> schema_SSHKey.ID = 0, schema_SSHKey.Name = [],
       schema_SSHKey.Fingerprint = [], schema_SSHKey.PublicKey = [] \<rparr>"

subsection \<open>\<^verbatim>\<open>Get\<close>\<close>

definition SSHKeyClient_Get ::
  "Client \<Rightarrow> int \<Rightarrow> event list
     \<Rightarrow> (SSHKey option \<times> Response option \<times> error option) \<times> event list" where
  "SSHKeyClient_Get c id' tr =
     (case Client_NewRequest c ''GET'' (''/ssh_keys/'' @ itoa id') None tr of
        (Inl err, tr1) \<Rightarrow> ((None, None, Some err), tr1)
      | (Inr req, tr1) \<Rightarrow>
          (case Client_Do c req (Some (unmarshalSSHKey c)) zeroSSHKey tr1 of
             ((resp, Some err, body), tr2) \<Rightarrow> ((None, None, Some err), tr2)
           | ((resp, None, body), tr2) \<Rightarrow>
               ((Some (SSHKeyFromSchema body), resp, None), tr2)))"

subsection \<open>\<^verbatim>\<open>List\<close>\<close>

text \<open>The loop over \<^verbatim>\<open>body.SSHKeys\<close>, appending one converted key at a time.\<close>

primrec List_loop :: "SSHKey list \<Rightarrow> schema_SSHKey list \<Rightarrow> SSHKey list" where
  "List_loop sshKeys [] = sshKeys"
| "List_loop sshKeys (s # ss) = List_loop (sshKeys @ [SSHKeyFromSchema s]) ss"

definition SSHKeyClient_List ::
  "Client \<Rightarrow> SSHKeyListOpts \<Rightarrow> event list
     \<Rightarrow> (SSHKey slice \<times> Response option \<times> error option) \<times> event list" where
  "SSHKeyClient_List c opts tr =
     (let path = ''/ssh_keys?'' @ Encode (valuesForListOpts (ListOpts opts)) in
      case Client_NewRequest c ''GET'' path None tr of
        (Inl err, tr1) \<Rightarrow> ((None, None, Some err), tr1)
      | (Inr req, tr1) \<Rightarrow>
          (case Client_Do c req (Some (unmarshalSSHKeys c)) None tr1 of
             ((resp, Some err, body), tr2) \<Rightarrow> ((None, None, Some err), tr2)
           | ((resp, None, body), tr2) \<Rightarrow>
               ((Some (List_loop [] (elems body)), resp, None), tr2)))"

subsection \<open>\<^verbatim>\<open>All\<close>\<close>

text \<open>
  The variables of \<^verbatim>\<open>All\<close> that its page-fetch closure captures: \<^verbatim>\<open>allSSHKeys\<close> and
  \<^verbatim>\<open>opts\<close>; the trace is threaded along with them.
\<close>

record All_frame =
  allSSHKeys :: "SSHKey slice"
  All_opts :: SSHKeyListOpts
  All_trace :: "event list"

definition All_fetch ::
  "Client \<Rightarrow> int \<Rightarrow> All_frame \<Rightarrow> (Response option \<times> error option) \<times> All_frame" where
  "All_fetch c page fr =
     (let opts' = (All_opts fr)\<lparr> ListOpts := (ListOpts (All_opts fr))\<lparr> ListOpts.Page := page \<rparr> \<rparr> in
      case SSHKeyClient_List c opts' (All_trace fr) of
        ((sshKeys, resp, Some err), tr') \<Rightarrow>
          ((resp, Some err), fr\<lparr> All_opts := opts', All_trace := tr' \<rparr>)
      | ((sshKeys, resp, None), tr') \<Rightarrow>
          ((resp, None),
           fr\<lparr> allSSHKeys := append_slice (allSSHKeys fr) sshKeys,
               All_opts := opts', All_trace := tr' \<rparr>))"

definition All_init :: "event list \<Rightarrow> All_frame" where
  "All_init tr =
     \<lparr> allSSHKeys = Some [],
       All_opts = \<lparr> ListOpts = \<lparr> ListOpts.Page = 0, ListOpts.PerPage = 50 \<rparr> \<rparr>,
       All_trace = tr \<rparr>"

definition SSHKeyClient_All ::
  "Client \<Rightarrow> event list \<Rightarrow> ((SSHKey slice \<times> error option) \<times> event list) option" where
  "SSHKeyClient_All c tr =
     (case Client_all (All_fetch c) (All_init tr) of
        None \<Rightarrow> None
      | Some ((resp, Some err), fr) \<Rightarrow> Some ((None, Some err), All_trace fr)
      | Some ((resp, None), fr) \<Rightarrow> Some ((allSSHKeys fr, None), All_trace fr))"

subsection \<open>\<^verbatim>\<open>Create\<close>\<close>

definition SSHKeyClient_Create ::
  "Client \<Rightarrow> SSHKeyCreateOpts \<Rightarrow> event list
     \<Rightarrow> (SSHKey option \<times> Response option \<times> error option) \<times> event list" where
  "SSHKeyClient_Create c opts tr =
     (case Validate opts of
        Some err \<Rightarrow> ((None, None, Some err), tr)
      | None \<Rightarrow>
          (case marshalCreate c (SSHKeyCreateOpts.Name opts) (SSHKeyCreateOpts.PublicKey opts) of
             Inl err \<Rightarrow> ((None, None, Some err), tr)
           | Inr reqBodyData \<Rightarrow>
               (case Client_NewRequest c ''POST'' ''/ssh_keys'' (Some reqBodyData) tr of
                  (Inl err, tr1) \<Rightarrow> ((None, None, Some err), tr1)
                | (Inr req, tr1) \<Rightarrow>
                    (case Client_Do c req (Some (unmarshalSSHKey c)) zeroSSHKey tr1 of
                       ((resp, Some err, respBody), tr2) \<Rightarrow> ((None, resp, Some err), tr2)
                     | ((resp, None, respBody), tr2) \<Rightarrow>
                         ((Some (SSHKeyFromSchema respBody), resp, None), tr2)))))"

subsection \<open>\<^verbatim>\<open>Delete\<close>\<close>

definition SSHKeyClient_Delete ::
  "Client \<Rightarrow> int \<Rightarrow> event list \<Rightarrow> (Response option \<times> error option) \<times> event list" where
  "SSHKeyClient_Delete c id' tr =
     (case Client_NewRequest c ''DELETE'' (''/ssh_keys/'' @ itoa id') None tr of
        (Inl err, tr1) \<Rightarrow> ((None, Some err), tr1)
      | (Inr req, tr1) \<Rightarrow>
          (case Client_Do c req None () tr1 of
             ((resp, err, v), tr2) \<Rightarrow> ((resp, err), tr2)))"

section \<open>Example clients\<close>

text \<open>
  Concrete clients in the manner of the repository's test environment, on which the
  theorems below are run. \<open>testClient\<close> talks to a provider with three SSH keys on two
  pages, which deletes key 1 and knows no other path; \<open>failingClient\<close> loses the
  connection after the first page; \<open>emptyClient\<close> talks to a provider with no keys.
\<close>

definition plainNewRequest :: "string \<Rightarrow> string \<Rightarrow> string option \<Rightarrow> error + Request" where
  "plainNewRequest method path body = Inr \<lparr> Method = method, Path = path, ReqBody = body \<rparr>"

definition key1 :: schema_SSHKey where
  "key1 = \<lparr> schema_SSHKey.ID = 1, schema_SSHKey.Name = ''a'',
            schema_SSHKey.Fingerprint = ''f1'', schema_SSHKey.PublicKey = ''k1'' \<rparr>"

definition key2 :: schema_SSHKey where
  "key2 = \<lparr> schema_SSHKey.ID = 2, schema_SSHKey.Name = ''b'',
            schema_SSHKey.Fingerprint = ''f2'', schema_SSHKey.PublicKey = ''k2'' \<rparr>"

definition key3 :: schema_SSHKey where
  "key3 = \<lparr> schema_SSHKey.ID = 3, schema_SSHKey.Name = ''c'',
            schema_SSHKey.Fingerprint = ''f3'', schema_SSHKey.PublicKey = ''k3'' \<rparr>"

definition testServer :: "event list \<Rightarrow> Request \<Rightarrow> error + HTTPReply" where
  "testServer tr req =
     (if Method req = ''GET'' \<and> Path req = ''/ssh_keys?page=1&per_page=50''
        then Inr \<lparr> StatusCode = 200, Body = ''page1'' \<rparr>
      else if Method req = ''GET'' \<and> Path req = ''/ssh_keys?page=2&per_page=50''
        then Inr \<lparr> StatusCode = 200, Body = ''page2'' \<rparr>
      else if Method req = ''DELETE'' \<and> Path req = ''/ssh_keys/1''
        then Inr \<lparr> StatusCode = 204, Body = [] \<rparr>
      else Inr \<lparr> StatusCode = 404, Body = ''missing'' \<rparr>)"

definition testMeta :: "string \<Rightarrow> Pagination option" where
  "testMeta b =
     (if b = ''page1''
        then Some \<lparr> Pagination.Page = 1, LastPage = 2, Pagination.PerPage = 50, TotalEntries = 3 \<rparr>
      else if b = ''page2''
        then Some \<lparr> Pagination.Page = 2, LastPage = 2, Pagination.PerPage = 50, TotalEntries = 3 \<rparr>
      else None)"

definition testKeys :: "string \<Rightarrow> error + schema_SSHKey slice" where
  "testKeys b =
     (if b = ''page1'' then Inr (Some [key1, key2])
      else if b = ''page2'' then Inr (Some [key3])
      else Inl (TransportError ''unexpected body''))"

definition testClient :: Client where
  "testClient =
     \<lparr> newRequest = plainNewRequest,
       roundTrip = testServer,
       parseMeta = testMeta,
       parseError = (\<lambda>b. if b = ''missing'' then (ErrorCodeNotFound, ''no such key'')
                          else (''unknown'', b)),
       marshalCreate = (\<lambda>n k. Inr (n @ '' '' @ k)),
       unmarshalSSHKey = (\<lambda>b. Inl (TransportError ''unexpected body'')),
       unmarshalSSHKeys = testKeys \<rparr>"

definition failingServer :: "event list \<Rightarrow> Request \<Rightarrow> error + HTTPReply" where
  "failingServer tr req =
     (if Method req = ''GET'' \<and> Path req = ''/ssh_keys?page=1&per_page=50''
        then Inr \<lparr> StatusCode = 200, Body = ''page1'' \<rparr>
      else Inl (TransportError ''connection reset''))"

definition failingClient :: Client where
  "failingClient = testClient \<lparr> roundTrip := failingServer \<rparr>"

definition emptyClient :: Client where
  "emptyClient =
     testClient \<lparr> roundTrip := (\<lambda>tr req. Inr \<lparr> StatusCode = 200, Body = ''{}'' \<rparr>),
                  unmarshalSSHKeys := (\<lambda>b. Inr None) \<rparr>"

section \<open>Evaluation lemmas\<close>

lemma itoa_1: "itoa 1 = ''1''"
  by (simp add: itoa_def decimal.simps digit_def)
lemma itoa_2: "itoa 2 = ''2''"
  by (simp add: itoa_def decimal.simps digit_def)
lemma itoa_50: "itoa 50 = ''50''"
  by (simp add: itoa_def decimal.simps digit_def)

section \<open>Schema conversion and validation\<close>

text \<open>
  C9. \<^verbatim>\<open>SSHKeyFromSchema\<close> is a total field-by-field mapping: the result's \<^verbatim>\<open>ID\<close>,
  \<^verbatim>\<open>Name\<close>, \<^verbatim>\<open>Fingerprint\<close> and \<^verbatim>\<open>PublicKey\<close> are those of the schema value, so two
  schema values (whatever else they carry) that convert to equal keys agree on these
  four fields.
\<close>

theorem SSHKeyFromSchema_fields:
  "SSHKey.ID (SSHKeyFromSchema s) = schema_SSHKey.ID s \<and>
   SSHKey.Name (SSHKeyFromSchema s) = schema_SSHKey.Name s \<and>
   SSHKey.Fingerprint (SSHKeyFromSchema s) = schema_SSHKey.Fingerprint s \<and>
   SSHKey.PublicKey (SSHKeyFromSchema s) = schema_SSHKey.PublicKey s \<and>
   (SSHKeyFromSchema s = SSHKeyFromSchema t \<longrightarrow>
      schema_SSHKey.ID s = schema_SSHKey.ID t \<and>
      schema_SSHKey.Name s = schema_SSHKey.Name t \<and>
      schema_SSHKey.Fingerprint s = schema_SSHKey.Fingerprint t \<and>
      schema_SSHKey.PublicKey s = schema_SSHKey.PublicKey t)"
  by (simp add: SSHKeyFromSchema_def)

theorem SSHKeyFromSchema_fields_witness:
  "SSHKeyFromSchema key1 = SSHKeyFromSchema (schema_SSHKey.extend key1 True) \<and>
   SSHKey.ID (SSHKeyFromSchema key1) = 1 \<and>
   schema_SSHKey.PublicKey (schema_SSHKey.extend key1 True) = ''k1''"
proof -
  have same: "SSHKeyFromSchema key1 = SSHKeyFromSchema (schema_SSHKey.extend key1 True)"
    by (simp add: SSHKeyFromSchema_def schema_SSHKey.extend_def)
  have "schema_SSHKey.ID key1 = 1" and "schema_SSHKey.PublicKey key1 = ''k1''"
    by (simp_all add: key1_def)
  with same SSHKeyFromSchema_fields [of key1 "schema_SSHKey.extend key1 True"]
  show ?thesis by simp
qed

text \<open>
  C10. \<^verbatim>\<open>Validate\<close> returns \<^verbatim>\<open>nil\<close> exactly when both the name and the public key are
  non-empty. The checks are ordered: an empty name gives the error "missing name"
  whatever the public key is, and a non-empty name with an empty public key gives
  "missing public key".
\<close>

theorem Validate_ordered:
  "(Validate opts = None \<longleftrightarrow>
      SSHKeyCreateOpts.Name opts \<noteq> [] \<and> SSHKeyCreateOpts.PublicKey opts \<noteq> []) \<and>
   (SSHKeyCreateOpts.Name opts = [] \<longrightarrow> Validate opts = Some (ErrorNew ''missing name'')) \<and>
   (SSHKeyCreateOpts.Name opts \<noteq> [] \<and> SSHKeyCreateOpts.PublicKey opts = [] \<longrightarrow>
      Validate opts = Some (ErrorNew ''missing public key''))"
  by (simp add: Validate_def)

theorem Validate_ordered_witness:
  "Validate \<lparr> SSHKeyCreateOpts.Name = [], SSHKeyCreateOpts.PublicKey = [] \<rparr>
     = Some (ErrorNew ''missing name'') \<and>
   Validate \<lparr> SSHKeyCreateOpts.Name = [], SSHKeyCreateOpts.PublicKey = ''ssh-rsa AAAA'' \<rparr>
     = Some (ErrorNew ''missing name'') \<and>
   Validate \<lparr> SSHKeyCreateOpts.Name = ''laptop'', SSHKeyCreateOpts.PublicKey = [] \<rparr>
     = Some (ErrorNew ''missing public key'') \<and>
   Validate \<lparr> SSHKeyCreateOpts.Name = ''laptop'', SSHKeyCreateOpts.PublicKey = ''ssh-rsa AAAA'' \<rparr>
     = None"
  using
    Validate_ordered [of "\<lparr> SSHKeyCreateOpts.Name = [], SSHKeyCreateOpts.PublicKey = [] \<rparr>"]
    Validate_ordered [of "\<lparr> SSHKeyCreateOpts.Name = [], SSHKeyCreateOpts.PublicKey = ''ssh-rsa AAAA'' \<rparr>"]
    Validate_ordered [of "\<lparr> SSHKeyCreateOpts.Name = ''laptop'', SSHKeyCreateOpts.PublicKey = [] \<rparr>"]
    Validate_ordered [of "\<lparr> SSHKeyCreateOpts.Name = ''laptop'', SSHKeyCreateOpts.PublicKey = ''ssh-rsa AAAA'' \<rparr>"]
  by simp

section \<open>\<^verbatim>\<open>Create\<close> validates before it talks to the provider\<close>

text \<open>
  C4. When the name or the public key of the options is empty, \<^verbatim>\<open>Create\<close> returns the
  validation error with no key and no response, and the trace is unchanged: no request
  has been constructed and none has been sent. The right-hand side does not mention the
  client, so nothing of the transport is consulted.
\<close>

theorem Create_validates_before_any_request:
  assumes "SSHKeyCreateOpts.Name opts = [] \<or> SSHKeyCreateOpts.PublicKey opts = []"
  shows "SSHKeyClient_Create c opts tr =
           ((None, None,
             Some (ErrorNew (if SSHKeyCreateOpts.Name opts = [] then ''missing name''
                             else ''missing public key''))),
            tr)"
  using assms by (auto simp add: SSHKeyClient_Create_def Validate_def)

theorem Create_validates_before_any_request_witness:
  "SSHKeyClient_Create testClient
      \<lparr> SSHKeyCreateOpts.Name = ''laptop'', SSHKeyCreateOpts.PublicKey = [] \<rparr> []
     = ((None, None, Some (ErrorNew ''missing public key'')), [])"
  using Create_validates_before_any_request
    [of "\<lparr> SSHKeyCreateOpts.Name = ''laptop'', SSHKeyCreateOpts.PublicKey = [] \<rparr>" testClient "[]"]
  by simp

section \<open>\<^verbatim>\<open>Get\<close> and the not-found answer\<close>

lemma Client_Do_api_error:
  assumes "roundTrip c tr req = Inr reply"
    and "\<not> (200 \<le> StatusCode reply \<and> StatusCode reply \<le> 299)"
    and "parseError c (Body reply) = (code, message)"
  shows "Client_Do c req dec v tr =
           ((Some \<lparr> Raw = reply, Meta = parseMeta c (Body reply) \<rparr>,
             Some (APIError code message), v), tr @ [Sent req])"
proof -
  from assms(2) have "(200 \<le> StatusCode reply \<and> StatusCode reply \<le> 299) = False"
    by blast
  with assms(1,3) show ?thesis
    unfolding Client_Do_def Let_def by (simp only: sum.case if_False prod.case)
qed

text \<open>
  C1. The claim is that \<^verbatim>\<open>Get\<close> turns the provider's not-found answer into a \<^verbatim>\<open>nil\<close> key,
  the response and a \<^verbatim>\<open>nil\<close> error. The code does not: whenever the request can be
  constructed and the provider answers it with a status outside 2xx whose error code is
  \<^verbatim>\<open>not_found\<close>, \<^verbatim>\<open>Get\<close> returns a \<^verbatim>\<open>nil\<close> key, a \<^verbatim>\<open>nil\<close> response and that API error,
  like any other error of the transport.
\<close>

theorem Get_not_found_is_returned_as_error:
  assumes "newRequest c ''GET'' (''/ssh_keys/'' @ itoa id') None = Inr req"
    and "roundTrip c (tr @ [Constructed ''GET'' (''/ssh_keys/'' @ itoa id') None]) req = Inr reply"
    and "\<not> (200 \<le> StatusCode reply \<and> StatusCode reply \<le> 299)"
    and "parseError c (Body reply) = (ErrorCodeNotFound, message)"
  shows "SSHKeyClient_Get c id' tr =
           ((None, None, Some (APIError ErrorCodeNotFound message)),
            tr @ [Constructed ''GET'' (''/ssh_keys/'' @ itoa id') None, Sent req])"
proof -
  let ?tr1 = "tr @ [Constructed ''GET'' (''/ssh_keys/'' @ itoa id') None]"
  have new: "Client_NewRequest c ''GET'' (''/ssh_keys/'' @ itoa id') None tr = (Inr req, ?tr1)"
    using assms(1) by (simp only: Client_NewRequest_def)
  have do: "Client_Do c req (Some (unmarshalSSHKey c)) zeroSSHKey ?tr1 =
              ((Some \<lparr> Raw = reply, Meta = parseMeta c (Body reply) \<rparr>,
                Some (APIError ErrorCodeNotFound message), zeroSSHKey), ?tr1 @ [Sent req])"
    using assms(2-4) by (rule Client_Do_api_error)
  show ?thesis
    by (simp only: SSHKeyClient_Get_def new do prod.case sum.case option.case) simp
qed

theorem Get_not_found_is_returned_as_error_witness:
  "SSHKeyClient_Get testClient 1 [] =
     ((None, None, Some (APIError ''not_found'' ''no such key'')),
      [Constructed ''GET'' ''/ssh_keys/1'' None,
       Sent \<lparr> Method = ''GET'', Path = ''/ssh_keys/1'', ReqBody = None \<rparr>])"
  using Get_not_found_is_returned_as_error
    [of testClient 1 "\<lparr> Method = ''GET'', Path = ''/ssh_keys/1'', ReqBody = None \<rparr>" "[]"
        "\<lparr> StatusCode = 404, Body = ''missing'' \<rparr>" "''no such key''"]
  by (simp add: itoa_1 testClient_def plainNewRequest_def testServer_def ErrorCodeNotFound_def)

section \<open>\<^verbatim>\<open>List\<close> and \<^verbatim>\<open>Delete\<close>: the requests they issue\<close>

lemma List_trace:
  "snd (SSHKeyClient_List c opts tr) =
     tr @ Constructed ''GET'' (''/ssh_keys?'' @ Encode (valuesForListOpts (ListOpts opts))) None
        # (case newRequest c ''GET'' (''/ssh_keys?'' @ Encode (valuesForListOpts (ListOpts opts))) None of
             Inl err \<Rightarrow> []
           | Inr req \<Rightarrow> [Sent req])"
  by (simp add: SSHKeyClient_List_def Client_NewRequest_def Client_Do_def Let_def
      split: sum.splits option.splits prod.splits)

lemma List_loop_map: "List_loop acc ss = acc @ map SSHKeyFromSchema ss"
  by (induction ss arbitrary: acc) simp_all

text \<open>
  C6. \<^verbatim>\<open>List\<close> calls \<^verbatim>\<open>NewRequest\<close> once, with the method \<^verbatim>\<open>GET\<close>, the path
  \<^verbatim>\<open>/ssh_keys?\<close> followed by the encoded list options, and no body; the request so built
  (when it can be built) is the one request sent. The encoded options are
  \<^verbatim>\<open>page=\<close>, the decimal page number, \<^verbatim>\<open>&per_page=\<close> and the decimal page size.
\<close>

theorem List_request_path:
  "snd (SSHKeyClient_List c opts tr) =
     tr @ Constructed ''GET'' (''/ssh_keys?'' @ Encode (valuesForListOpts (ListOpts opts))) None
        # (case newRequest c ''GET'' (''/ssh_keys?'' @ Encode (valuesForListOpts (ListOpts opts))) None of
             Inl err \<Rightarrow> []
           | Inr req \<Rightarrow> [Sent req]) \<and>
   Encode (valuesForListOpts (ListOpts opts)) =
     ''page='' @ itoa (ListOpts.Page (ListOpts opts)) @
     ''&per_page='' @ itoa (ListOpts.PerPage (ListOpts opts))"
  by (simp add: SSHKeyClient_List_def Client_NewRequest_def Client_Do_def Let_def valuesForListOpts_def
      split: sum.splits option.splits prod.splits)

theorem List_request_path_witness:
  "snd (SSHKeyClient_List testClient \<lparr> ListOpts = \<lparr> ListOpts.Page = 2, ListOpts.PerPage = 50 \<rparr> \<rparr> []) =
     [Constructed ''GET'' ''/ssh_keys?page=2&per_page=50'' None,
      Sent \<lparr> Method = ''GET'', Path = ''/ssh_keys?page=2&per_page=50'', ReqBody = None \<rparr>]"
  using List_request_path [of testClient "\<lparr> ListOpts = \<lparr> ListOpts.Page = 2, ListOpts.PerPage = 50 \<rparr> \<rparr>" "[]"]
  by (simp add: itoa_2 itoa_50 testClient_def plainNewRequest_def)

text \<open>
  C7. \<^verbatim>\<open>Delete\<close> calls \<^verbatim>\<open>NewRequest\<close> once, with the method \<^verbatim>\<open>DELETE\<close>, the path
  \<^verbatim>\<open>/ssh_keys/\<close> followed by the decimal identifier, and no body, and sends the request
  so built exactly once (none when it cannot be built, in which case the construction
  error is returned). Its error is \<^verbatim>\<open>nil\<close> exactly when the request was built and answered
  with a 2xx status. No body is decoded: the outcome does not depend on the decoders.
\<close>

theorem Delete_request_and_outcome:
  "snd (SSHKeyClient_Delete c id' tr) =
     tr @ Constructed ''DELETE'' (''/ssh_keys/'' @ itoa id') None
        # (case newRequest c ''DELETE'' (''/ssh_keys/'' @ itoa id') None of
             Inl err \<Rightarrow> []
           | Inr req \<Rightarrow> [Sent req]) \<and>
   (snd (fst (SSHKeyClient_Delete c id' tr)) = None \<longleftrightarrow>
      (\<exists>req reply.
          newRequest c ''DELETE'' (''/ssh_keys/'' @ itoa id') None = Inr req \<and>
          roundTrip c (tr @ [Constructed ''DELETE'' (''/ssh_keys/'' @ itoa id') None]) req = Inr reply \<and>
          200 \<le> StatusCode reply \<and> StatusCode reply \<le> 299)) \<and>
   SSHKeyClient_Delete (c\<lparr> unmarshalSSHKey := d1, unmarshalSSHKeys := d2 \<rparr>) id' tr =
     SSHKeyClient_Delete c id' tr"
  by (auto simp add: SSHKeyClient_Delete_def Client_NewRequest_def Client_Do_def Let_def
      split: sum.splits option.splits prod.splits)

theorem Delete_request_and_outcome_witness:
  "snd (SSHKeyClient_Delete testClient 1 []) =
     [Constructed ''DELETE'' ''/ssh_keys/1'' None,
      Sent \<lparr> Method = ''DELETE'', Path = ''/ssh_keys/1'', ReqBody = None \<rparr>] \<and>
   snd (fst (SSHKeyClient_Delete testClient 1 [])) = None \<and>
   snd (fst (SSHKeyClient_Delete testClient 2 [])) \<noteq> None"
  using Delete_request_and_outcome [of testClient 1 "[]"]
    Delete_request_and_outcome [of testClient 2 "[]"]
  by (simp add: itoa_1 itoa_2 testClient_def plainNewRequest_def testServer_def)

section \<open>The pagination loop\<close>

text \<open>
  Whatever holds of the closure's state at the start and is kept by every call of the
  page-fetch function holds of the state the aggregator returns.
\<close>

lemma all_from_invariant_aux:
  assumes "all_from f page s = Some y"
  shows "I s \<longrightarrow> (\<forall>p t r t'. I t \<longrightarrow> f p t = (r, t') \<longrightarrow> I t') \<longrightarrow> I (snd y)"
proof (rule all_from.raw_induct
    [where P = "\<lambda>f page s y. I s \<longrightarrow> (\<forall>p t r t'. I t \<longrightarrow> f p t = (r, t') \<longrightarrow> I t') \<longrightarrow> I (snd y)",
     OF _ assms])
  fix all_from' :: "(int \<Rightarrow> 'a \<Rightarrow> (Response option \<times> error option) \<times> 'a) \<Rightarrow> int \<Rightarrow> 'a
     \<Rightarrow> ((Response option \<times> error option) \<times> 'a) option"
  fix f page s y
  assume IH: "\<And>f page s y. all_from' f page s = Some y \<Longrightarrow>
     I s \<longrightarrow> (\<forall>p t r t'. I t \<longrightarrow> f p t = (r, t') \<longrightarrow> I t') \<longrightarrow> I (snd y)"
  assume body: "(case f page s of
      ((resp, None), s') \<Rightarrow>
        if lastPageReached resp then Some ((resp, None), s')
        else all_from' f (page + 1) s'
      | ((resp, Some err), s') \<Rightarrow> Some ((None, Some err), s')) = Some y"
  show "I s \<longrightarrow> (\<forall>p t r t'. I t \<longrightarrow> f p t = (r, t') \<longrightarrow> I t') \<longrightarrow> I (snd y)"
  proof (intro impI)
    assume init: "I s" and step: "\<forall>p t r t'. I t \<longrightarrow> f p t = (r, t') \<longrightarrow> I t'"
    obtain resp err s1 where fetch: "f page s = ((resp, err), s1)"
      by (metis prod.exhaust)
    from init step fetch have s1: "I s1" by blast
    show "I (snd y)"
    proof (cases err)
      case (Some e)
      with body fetch have "y = ((None, Some e), s1)" by simp
      with s1 show ?thesis by simp
    next
      case None
      show ?thesis
      proof (cases "lastPageReached resp")
        case True
        with body fetch None have "y = ((resp, None), s1)" by simp
        with s1 show ?thesis by simp
      next
        case False
        with body fetch None have "all_from' f (page + 1) s1 = Some y" by simp
        from IH [OF this] s1 step show ?thesis by blast
      qed
    qed
  qed
qed

lemma all_from_invariant:
  assumes "all_from f page s = Some (r, s')"
    and "I s"
    and "\<And>p t r t'. I t \<Longrightarrow> f p t = (r, t') \<Longrightarrow> I t'"
  shows "I s'"
  using all_from_invariant_aux [OF assms(1), of I] assms(2,3) by auto

lemma all_from_error:
  "f page s = ((resp, Some err), s') \<Longrightarrow> all_from f page s = Some ((None, Some err), s')"
  by (subst all_from.simps) simp

lemma all_from_last:
  "f page s = ((resp, None), s') \<Longrightarrow> lastPageReached resp
     \<Longrightarrow> all_from f page s = Some ((resp, None), s')"
  by (subst all_from.simps) simp

lemma all_from_next:
  "f page s = ((resp, None), s') \<Longrightarrow> \<not> lastPageReached resp
     \<Longrightarrow> all_from f page s = all_from f (page + 1) s'"
  by (subst all_from.simps) simp

section \<open>\<^verbatim>\<open>All\<close>\<close>

lemma opts_page_update:
  "ListOpts.PerPage (ListOpts o') = n \<Longrightarrow>
     o'\<lparr> ListOpts := (ListOpts o')\<lparr> ListOpts.Page := page \<rparr> \<rparr>
       = \<lparr> ListOpts = \<lparr> ListOpts.Page = page, ListOpts.PerPage = n \<rparr> \<rparr>"
  by (cases o', cases "ListOpts o'") auto

lemma All_fetch_page:
  assumes "ListOpts.PerPage (ListOpts (All_opts fr)) = n"
  shows "All_fetch c page fr =
     (case SSHKeyClient_List c \<lparr> ListOpts = \<lparr> ListOpts.Page = page, ListOpts.PerPage = n \<rparr> \<rparr>
             (All_trace fr) of
        ((sshKeys, resp, Some err), tr') \<Rightarrow>
          ((resp, Some err),
           fr\<lparr> All_opts := \<lparr> ListOpts = \<lparr> ListOpts.Page = page, ListOpts.PerPage = n \<rparr> \<rparr>,
               All_trace := tr' \<rparr>)
      | ((sshKeys, resp, None), tr') \<Rightarrow>
          ((resp, None),
           fr\<lparr> allSSHKeys := append_slice (allSSHKeys fr) sshKeys,
               All_opts := \<lparr> ListOpts = \<lparr> ListOpts.Page = page, ListOpts.PerPage = n \<rparr> \<rparr>,
               All_trace := tr' \<rparr>))"
  unfolding All_fetch_def Let_def opts_page_update [OF assms] ..

lemma append_slice_Some: "append_slice (Some xs) ys = Some (xs @ elems ys)"
  by (simp add: append_slice_def)

text \<open>
  A run of \<open>n\<close> successful pages, none of them the last: the loop arrives at page
  \<open>p + n\<close> with the pages' keys appended in order and the trace of the last page.
\<close>

lemma all_from_pages:
  assumes pages: "\<forall>i<n. SSHKeyClient_List c
                     \<lparr> ListOpts = \<lparr> ListOpts.Page = p + int i, ListOpts.PerPage = 50 \<rparr> \<rparr> (tr i)
                   = ((kss i, rs i, None), tr (Suc i)) \<and> \<not> lastPageReached (rs i)"
    and fr: "ListOpts.PerPage (ListOpts (All_opts fr)) = 50" "All_trace fr = tr 0"
            "allSSHKeys fr = Some acc"
  shows "\<exists>fr'. all_from (All_fetch c) p fr = all_from (All_fetch c) (p + int n) fr' \<and>
               ListOpts.PerPage (ListOpts (All_opts fr')) = 50 \<and>
               All_trace fr' = tr n \<and>
               allSSHKeys fr' = Some (acc @ concat (map (\<lambda>i. elems (kss i)) [0..<n]))"
  using pages
proof (induction n)
  case 0
  with fr show ?case by auto
next
  case (Suc n)
  then obtain fr' where
    run: "all_from (All_fetch c) p fr = all_from (All_fetch c) (p + int n) fr'"
    and pp: "ListOpts.PerPage (ListOpts (All_opts fr')) = 50"
    and trace: "All_trace fr' = tr n"
    and keys: "allSSHKeys fr' = Some (acc @ concat (map (\<lambda>i. elems (kss i)) [0..<n]))"
    by auto
  from Suc.prems have
    page: "SSHKeyClient_List c
             \<lparr> ListOpts = \<lparr> ListOpts.Page = p + int n, ListOpts.PerPage = 50 \<rparr> \<rparr> (tr n)
           = ((kss n, rs n, None), tr (Suc n))"
    and more: "\<not> lastPageReached (rs n)"
    by auto
  let ?fr'' = "fr'\<lparr> allSSHKeys := append_slice (allSSHKeys fr') (kss n),
                   All_opts := \<lparr> ListOpts = \<lparr> ListOpts.Page = p + int n, ListOpts.PerPage = 50 \<rparr> \<rparr>,
                   All_trace := tr (Suc n) \<rparr>"
  have fetch: "All_fetch c (p + int n) fr' = ((rs n, None), ?fr'')"
    by (simp add: All_fetch_page [OF pp] trace page)
  have "all_from (All_fetch c) (p + int n) fr' = all_from (All_fetch c) (p + int n + 1) ?fr''"
    using fetch more by (rule all_from_next)
  with run have "all_from (All_fetch c) p fr = all_from (All_fetch c) (p + int (Suc n)) ?fr''"
    by (simp add: ac_simps)
  moreover have "ListOpts.PerPage (ListOpts (All_opts ?fr'')) = 50" by simp
  moreover have "All_trace ?fr'' = tr (Suc n)" by simp
  moreover have "allSSHKeys ?fr'' = Some (acc @ concat (map (\<lambda>i. elems (kss i)) [0..<Suc n]))"
    by (simp add: keys append_slice_Some)
  ultimately show ?case by blast
qed

subsection \<open>The example clients, page by page\<close>

lemma testClient_page1:
  "SSHKeyClient_List testClient \<lparr> ListOpts = \<lparr> ListOpts.Page = 1, ListOpts.PerPage = 50 \<rparr> \<rparr> []
     = ((Some [SSHKeyFromSchema key1, SSHKeyFromSchema key2],
         Some \<lparr> Raw = \<lparr> StatusCode = 200, Body = ''page1'' \<rparr>, Meta = testMeta ''page1'' \<rparr>,
         None),
        [Constructed ''GET'' ''/ssh_keys?page=1&per_page=50'' None,
         Sent \<lparr> Method = ''GET'', Path = ''/ssh_keys?page=1&per_page=50'', ReqBody = None \<rparr>])"
  by (simp add: SSHKeyClient_List_def Client_NewRequest_def Client_Do_def Let_def
      valuesForListOpts_def itoa_1 itoa_50 testClient_def plainNewRequest_def testServer_def
      testKeys_def elems_def)

lemma testClient_page2:
  "SSHKeyClient_List testClient \<lparr> ListOpts = \<lparr> ListOpts.Page = 2, ListOpts.PerPage = 50 \<rparr> \<rparr>
       [Constructed ''GET'' ''/ssh_keys?page=1&per_page=50'' None,
        Sent \<lparr> Method = ''GET'', Path = ''/ssh_keys?page=1&per_page=50'', ReqBody = None \<rparr>]
     = ((Some [SSHKeyFromSchema key3],
         Some \<lparr> Raw = \<lparr> StatusCode = 200, Body = ''page2'' \<rparr>, Meta = testMeta ''page2'' \<rparr>,
         None),
        [Constructed ''GET'' ''/ssh_keys?page=1&per_page=50'' None,
         Sent \<lparr> Method = ''GET'', Path = ''/ssh_keys?page=1&per_page=50'', ReqBody = None \<rparr>,
         Constructed ''GET'' ''/ssh_keys?page=2&per_page=50'' None,
         Sent \<lparr> Method = ''GET'', Path = ''/ssh_keys?page=2&per_page=50'', ReqBody = None \<rparr>])"
  by (simp add: SSHKeyClient_List_def Client_NewRequest_def Client_Do_def Let_def
      valuesForListOpts_def itoa_2 itoa_50 testClient_def plainNewRequest_def testServer_def
      testKeys_def elems_def)

lemma failingClient_page1:
  "SSHKeyClient_List failingClient \<lparr> ListOpts = \<lparr> ListOpts.Page = 1, ListOpts.PerPage = 50 \<rparr> \<rparr> []
     = ((Some [SSHKeyFromSchema key1, SSHKeyFromSchema key2],
         Some \<lparr> Raw = \<lparr> StatusCode = 200, Body = ''page1'' \<rparr>, Meta = testMeta ''page1'' \<rparr>,
         None),
        [Constructed ''GET'' ''/ssh_keys?page=1&per_page=50'' None,
         Sent \<lparr> Method = ''GET'', Path = ''/ssh_keys?page=1&per_page=50'', ReqBody = None \<rparr>])"
  by (simp add: SSHKeyClient_List_def Client_NewRequest_def Client_Do_def Let_def
      valuesForListOpts_def itoa_1 itoa_50 failingClient_def testClient_def plainNewRequest_def
      failingServer_def testKeys_def elems_def)

lemma failingClient_page2:
  "SSHKeyClient_List failingClient \<lparr> ListOpts = \<lparr> ListOpts.Page = 2, ListOpts.PerPage = 50 \<rparr> \<rparr>
       [Constructed ''GET'' ''/ssh_keys?page=1&per_page=50'' None,
        Sent \<lparr> Method = ''GET'', Path = ''/ssh_keys?page=1&per_page=50'', ReqBody = None \<rparr>]
     = ((None, None, Some (TransportError ''connection reset'')),
        [Constructed ''GET'' ''/ssh_keys?page=1&per_page=50'' None,
         Sent \<lparr> Method = ''GET'', Path = ''/ssh_keys?page=1&per_page=50'', ReqBody = None \<rparr>,
         Constructed ''GET'' ''/ssh_keys?page=2&per_page=50'' None,
         Sent \<lparr> Method = ''GET'', Path = ''/ssh_keys?page=2&per_page=50'', ReqBody = None \<rparr>])"
  by (simp add: SSHKeyClient_List_def Client_NewRequest_def Client_Do_def Let_def
      valuesForListOpts_def itoa_2 itoa_50 failingClient_def testClient_def plainNewRequest_def
      failingServer_def)

lemma testMeta_pages:
  "\<not> lastPageReached (Some \<lparr> Raw = r, Meta = testMeta ''page1'' \<rparr>)"
  "lastPageReached (Some \<lparr> Raw = r, Meta = testMeta ''page2'' \<rparr>)"
  by (simp_all add: lastPageReached_def testMeta_def)

subsection \<open>Errors and results\<close>

text \<open>
  C2. Let the pages 1 to \<open>n\<close> be listed successfully, none of them the last, and let the
  listing of page \<open>n + 1\<close> fail with an error (\<open>tr i\<close> is the trace before page \<open>i + 1\<close> is
  listed). Then \<^verbatim>\<open>All\<close> returns a \<^verbatim>\<open>nil\<close> slice and that error, and the trace it leaves is
  the trace of the failed listing: the keys of the earlier pages are not returned, and
  nothing is requested after the failing page.
\<close>

theorem All_stops_at_first_error:
  assumes "\<forall>i<n. SSHKeyClient_List c
               \<lparr> ListOpts = \<lparr> ListOpts.Page = 1 + int i, ListOpts.PerPage = 50 \<rparr> \<rparr> (tr i)
             = ((kss i, rs i, None), tr (Suc i)) \<and> \<not> lastPageReached (rs i)"
    and "SSHKeyClient_List c
           \<lparr> ListOpts = \<lparr> ListOpts.Page = 1 + int n, ListOpts.PerPage = 50 \<rparr> \<rparr> (tr n)
         = ((ks, resp, Some err), tr')"
  shows "SSHKeyClient_All c (tr 0) = Some ((None, Some err), tr')"
proof -
  have "ListOpts.PerPage (ListOpts (All_opts (All_init (tr 0)))) = 50"
    and "All_trace (All_init (tr 0)) = tr 0" and "allSSHKeys (All_init (tr 0)) = Some []"
    by (simp_all add: All_init_def)
  from all_from_pages [OF assms(1) this] obtain fr' where
    run: "all_from (All_fetch c) 1 (All_init (tr 0)) = all_from (All_fetch c) (1 + int n) fr'"
    and pp: "ListOpts.PerPage (ListOpts (All_opts fr')) = 50"
    and trace: "All_trace fr' = tr n"
    by blast
  let ?fr'' = "fr'\<lparr> All_opts := \<lparr> ListOpts = \<lparr> ListOpts.Page = 1 + int n, ListOpts.PerPage = 50 \<rparr> \<rparr>,
                   All_trace := tr' \<rparr>"
  have "All_fetch c (1 + int n) fr' = ((resp, Some err), ?fr'')"
    by (simp add: All_fetch_page [OF pp] trace assms(2))
  then have "all_from (All_fetch c) (1 + int n) fr' = Some ((None, Some err), ?fr'')"
    by (rule all_from_error)
  with run show ?thesis
    by (simp add: SSHKeyClient_All_def Client_all_def)
qed

theorem All_stops_at_first_error_witness:
  "SSHKeyClient_All failingClient []
     = Some ((None, Some (TransportError ''connection reset'')),
        [Constructed ''GET'' ''/ssh_keys?page=1&per_page=50'' None,
         Sent \<lparr> Method = ''GET'', Path = ''/ssh_keys?page=1&per_page=50'', ReqBody = None \<rparr>,
         Constructed ''GET'' ''/ssh_keys?page=2&per_page=50'' None,
         Sent \<lparr> Method = ''GET'', Path = ''/ssh_keys?page=2&per_page=50'', ReqBody = None \<rparr>])"
  using All_stops_at_first_error
    [of "Suc 0" failingClient
        "\<lambda>i. if i = 0 then []
             else [Constructed ''GET'' ''/ssh_keys?page=1&per_page=50'' None,
                   Sent \<lparr> Method = ''GET'', Path = ''/ssh_keys?page=1&per_page=50'', ReqBody = None \<rparr>]"
        "\<lambda>i. Some [SSHKeyFromSchema key1, SSHKeyFromSchema key2]"
        "\<lambda>i. Some \<lparr> Raw = \<lparr> StatusCode = 200, Body = ''page1'' \<rparr>, Meta = testMeta ''page1'' \<rparr>"
        None None "TransportError ''connection reset''"
        "[Constructed ''GET'' ''/ssh_keys?page=1&per_page=50'' None,
          Sent \<lparr> Method = ''GET'', Path = ''/ssh_keys?page=1&per_page=50'', ReqBody = None \<rparr>,
          Constructed ''GET'' ''/ssh_keys?page=2&per_page=50'' None,
          Sent \<lparr> Method = ''GET'', Path = ''/ssh_keys?page=2&per_page=50'', ReqBody = None \<rparr>]"]
  by (simp add: failingClient_page1 failingClient_page2 testMeta_pages)

text \<open>
  C3. Let the pages 1 to \<open>n + 1\<close> be listed successfully, with page \<open>n + 1\<close> the first one
  that is the last page (\<open>kss i\<close> is the slice that listing page \<open>i + 1\<close> returns). Then
  \<^verbatim>\<open>All\<close> returns exactly the concatenation of the pages' slices, in ascending page order
  and with every page's own order: no key is dropped, repeated or moved.
\<close>

theorem All_concatenates_pages:
  assumes "\<forall>i<n. SSHKeyClient_List c
               \<lparr> ListOpts = \<lparr> ListOpts.Page = 1 + int i, ListOpts.PerPage = 50 \<rparr> \<rparr> (tr i)
             = ((kss i, rs i, None), tr (Suc i)) \<and> \<not> lastPageReached (rs i)"
    and "SSHKeyClient_List c
           \<lparr> ListOpts = \<lparr> ListOpts.Page = 1 + int n, ListOpts.PerPage = 50 \<rparr> \<rparr> (tr n)
         = ((kss n, rs n, None), tr (Suc n))"
    and "lastPageReached (rs n)"
  shows "SSHKeyClient_All c (tr 0)
           = Some ((Some (concat (map (\<lambda>i. elems (kss i)) [0..<Suc n])), None), tr (Suc n))"
proof -
  have "ListOpts.PerPage (ListOpts (All_opts (All_init (tr 0)))) = 50"
    and "All_trace (All_init (tr 0)) = tr 0" and "allSSHKeys (All_init (tr 0)) = Some []"
    by (simp_all add: All_init_def)
  from all_from_pages [OF assms(1) this] obtain fr' where
    run: "all_from (All_fetch c) 1 (All_init (tr 0)) = all_from (All_fetch c) (1 + int n) fr'"
    and pp: "ListOpts.PerPage (ListOpts (All_opts fr')) = 50"
    and trace: "All_trace fr' = tr n"
    and keys: "allSSHKeys fr' = Some ([] @ concat (map (\<lambda>i. elems (kss i)) [0..<n]))"
    by blast
  let ?fr'' = "fr'\<lparr> allSSHKeys := append_slice (allSSHKeys fr') (kss n),
                   All_opts := \<lparr> ListOpts = \<lparr> ListOpts.Page = 1 + int n, ListOpts.PerPage = 50 \<rparr> \<rparr>,
                   All_trace := tr (Suc n) \<rparr>"
  have "All_fetch c (1 + int n) fr' = ((rs n, None), ?fr'')"
    by (simp add: All_fetch_page [OF pp] trace assms(2))
  then have "all_from (All_fetch c) (1 + int n) fr' = Some ((rs n, None), ?fr'')"
    using assms(3) by (rule all_from_last)
  with run show ?thesis
    by (simp add: SSHKeyClient_All_def Client_all_def keys append_slice_Some)
qed

theorem All_concatenates_pages_witness:
  "SSHKeyClient_All testClient []
     = Some ((Some [SSHKeyFromSchema key1, SSHKeyFromSchema key2, SSHKeyFromSchema key3], None),
        [Constructed ''GET'' ''/ssh_keys?page=1&per_page=50'' None,
         Sent \<lparr> Method = ''GET'', Path = ''/ssh_keys?page=1&per_page=50'', ReqBody = None \<rparr>,
         Constructed ''GET'' ''/ssh_keys?page=2&per_page=50'' None,
         Sent \<lparr> Method = ''GET'', Path = ''/ssh_keys?page=2&per_page=50'', ReqBody = None \<rparr>])"
  using All_concatenates_pages
    [of "Suc 0" testClient
        "\<lambda>i. if i = 0 then []
             else if i = Suc 0 then
                  [Constructed ''GET'' ''/ssh_keys?page=1&per_page=50'' None,
                   Sent \<lparr> Method = ''GET'', Path = ''/ssh_keys?page=1&per_page=50'', ReqBody = None \<rparr>]
             else [Constructed ''GET'' ''/ssh_keys?page=1&per_page=50'' None,
                   Sent \<lparr> Method = ''GET'', Path = ''/ssh_keys?page=1&per_page=50'', ReqBody = None \<rparr>,
                   Constructed ''GET'' ''/ssh_keys?page=2&per_page=50'' None,
                   Sent \<lparr> Method = ''GET'', Path = ''/ssh_keys?page=2&per_page=50'', ReqBody = None \<rparr>]"
        "\<lambda>i. if i = 0 then Some [SSHKeyFromSchema key1, SSHKeyFromSchema key2]
             else Some [SSHKeyFromSchema key3]"
        "\<lambda>i. if i = 0
             then Some \<lparr> Raw = \<lparr> StatusCode = 200, Body = ''page1'' \<rparr>, Meta = testMeta ''page1'' \<rparr>
             else Some \<lparr> Raw = \<lparr> StatusCode = 200, Body = ''page2'' \<rparr>, Meta = testMeta ''page2'' \<rparr>"]
  by (simp add: testClient_page1 testClient_page2 testMeta_pages elems_def)

subsection \<open>The result slice is never \<^verbatim>\<open>nil\<close> on success\<close>

lemma All_fetch_keys:
  "allSSHKeys fr \<noteq> None \<Longrightarrow> allSSHKeys (snd (All_fetch c page fr)) \<noteq> None"
  by (auto simp add: All_fetch_def Let_def append_slice_Some split: prod.splits option.splits)

lemma All_result:
  assumes "SSHKeyClient_All c tr = Some ((ks, err), tr')"
  shows "\<exists>r fr. all_from (All_fetch c) 1 (All_init tr) = Some (r, fr) \<and> All_trace fr = tr' \<and>
                (err = None \<longrightarrow> allSSHKeys fr = ks)"
  using assms
  by (auto simp add: SSHKeyClient_All_def Client_all_def split: option.splits prod.splits)

text \<open>
  C8. When \<^verbatim>\<open>List\<close> returns no error its slice is not \<^verbatim>\<open>nil\<close>, and when \<^verbatim>\<open>All\<close> returns
  no error its slice is not \<^verbatim>\<open>nil\<close>; with a provider that has no keys both return the empty
  slice.
\<close>

theorem List_and_All_return_a_slice_on_success:
  "(SSHKeyClient_List c opts tr = ((ks, resp, None), tr') \<longrightarrow> ks \<noteq> None) \<and>
   (SSHKeyClient_All c tr = Some ((ks', None), tr'') \<longrightarrow> ks' \<noteq> None)"
proof (intro conjI impI)
  assume "SSHKeyClient_List c opts tr = ((ks, resp, None), tr')"
  then show "ks \<noteq> None"
    by (auto simp add: SSHKeyClient_List_def Let_def split: prod.splits sum.splits option.splits)
next
  assume "SSHKeyClient_All c tr = Some ((ks', None), tr'')"
  from All_result [OF this] obtain r fr where
    run: "all_from (All_fetch c) 1 (All_init tr) = Some (r, fr)" and keys: "allSSHKeys fr = ks'"
    by auto
  have "allSSHKeys fr \<noteq> None"
  proof (rule all_from_invariant [OF run, where I = "\<lambda>fr. allSSHKeys fr \<noteq> None"])
    show "allSSHKeys (All_init tr) \<noteq> None" by (simp add: All_init_def)
  next
    fix p t r t'
    assume "allSSHKeys t \<noteq> None" and "All_fetch c p t = (r, t')"
    with All_fetch_keys [of t c p] show "allSSHKeys t' \<noteq> None" by simp
  qed
  with keys show "ks' \<noteq> None" by simp
qed

lemma emptyClient_page:
  "SSHKeyClient_List emptyClient \<lparr> ListOpts = \<lparr> ListOpts.Page = 1, ListOpts.PerPage = 50 \<rparr> \<rparr> []
     = ((Some [], Some \<lparr> Raw = \<lparr> StatusCode = 200, Body = ''{}'' \<rparr>, Meta = None \<rparr>, None),
        [Constructed ''GET'' ''/ssh_keys?page=1&per_page=50'' None,
         Sent \<lparr> Method = ''GET'', Path = ''/ssh_keys?page=1&per_page=50'', ReqBody = None \<rparr>])"
  by (simp add: SSHKeyClient_List_def Client_NewRequest_def Client_Do_def Let_def
      valuesForListOpts_def itoa_1 itoa_50 emptyClient_def testClient_def plainNewRequest_def
      testMeta_def elems_def)

lemma emptyClient_all:
  "SSHKeyClient_All emptyClient []
     = Some ((Some [], None),
        [Constructed ''GET'' ''/ssh_keys?page=1&per_page=50'' None,
         Sent \<lparr> Method = ''GET'', Path = ''/ssh_keys?page=1&per_page=50'', ReqBody = None \<rparr>])"
proof -
  have pp: "ListOpts.PerPage (ListOpts (All_opts (All_init []))) = 50"
    by (simp add: All_init_def)
  have "\<exists>fr. All_fetch emptyClient 1 (All_init [])
          = ((Some \<lparr> Raw = \<lparr> StatusCode = 200, Body = ''{}'' \<rparr>, Meta = None \<rparr>, None), fr) \<and>
        allSSHKeys fr = Some [] \<and>
        All_trace fr = [Constructed ''GET'' ''/ssh_keys?page=1&per_page=50'' None,
          Sent \<lparr> Method = ''GET'', Path = ''/ssh_keys?page=1&per_page=50'', ReqBody = None \<rparr>]"
  proof -
    have init: "All_trace (All_init []) = []" "allSSHKeys (All_init []) = Some []"
      by (simp_all add: All_init_def)
    show ?thesis
      by (simp add: All_fetch_page [OF pp] init emptyClient_page append_slice_Some elems_def)
  qed
  then obtain fr where
    fetch: "All_fetch emptyClient 1 (All_init [])
          = ((Some \<lparr> Raw = \<lparr> StatusCode = 200, Body = ''{}'' \<rparr>, Meta = None \<rparr>, None), fr)"
    and fr: "allSSHKeys fr = Some []"
        "All_trace fr = [Constructed ''GET'' ''/ssh_keys?page=1&per_page=50'' None,
          Sent \<lparr> Method = ''GET'', Path = ''/ssh_keys?page=1&per_page=50'', ReqBody = None \<rparr>]"
    by blast
  have "lastPageReached (Some \<lparr> Raw = \<lparr> StatusCode = 200, Body = ''{}'' \<rparr>, Meta = None \<rparr>)"
    by (simp add: lastPageReached_def)
  with fetch have "all_from (All_fetch emptyClient) 1 (All_init [])
          = Some ((Some \<lparr> Raw = \<lparr> StatusCode = 200, Body = ''{}'' \<rparr>, Meta = None \<rparr>, None), fr)"
    by (rule all_from_last)
  with fr show ?thesis
    by (simp add: SSHKeyClient_All_def Client_all_def)
qed

theorem List_and_All_return_a_slice_on_success_witness:
  "SSHKeyClient_List emptyClient \<lparr> ListOpts = \<lparr> ListOpts.Page = 1, ListOpts.PerPage = 50 \<rparr> \<rparr> []
     = ((Some [], Some \<lparr> Raw = \<lparr> StatusCode = 200, Body = ''{}'' \<rparr>, Meta = None \<rparr>, None),
        [Constructed ''GET'' ''/ssh_keys?page=1&per_page=50'' None,
         Sent \<lparr> Method = ''GET'', Path = ''/ssh_keys?page=1&per_page=50'', ReqBody = None \<rparr>]) \<and>
   SSHKeyClient_All emptyClient []
     = Some ((Some [], None),
        [Constructed ''GET'' ''/ssh_keys?page=1&per_page=50'' None,
         Sent \<lparr> Method = ''GET'', Path = ''/ssh_keys?page=1&per_page=50'', ReqBody = None \<rparr>]) \<and>
   (Some [] :: SSHKey slice) \<noteq> None"
  using List_and_All_return_a_slice_on_success
    [of emptyClient "\<lparr> ListOpts = \<lparr> ListOpts.Page = 1, ListOpts.PerPage = 50 \<rparr> \<rparr>" "[]"
        "Some []" "Some \<lparr> Raw = \<lparr> StatusCode = 200, Body = ''{}'' \<rparr>, Meta = None \<rparr>"
        "[Constructed ''GET'' ''/ssh_keys?page=1&per_page=50'' None,
          Sent \<lparr> Method = ''GET'', Path = ''/ssh_keys?page=1&per_page=50'', ReqBody = None \<rparr>]"
        "Some []"
        "[Constructed ''GET'' ''/ssh_keys?page=1&per_page=50'' None,
          Sent \<lparr> Method = ''GET'', Path = ''/ssh_keys?page=1&per_page=50'', ReqBody = None \<rparr>]"]
    emptyClient_page emptyClient_all
  by simp

subsection \<open>The page size\<close>

lemma All_fetch_trace:
  "All_trace (snd (All_fetch c page fr)) =
     snd (SSHKeyClient_List c
            ((All_opts fr)\<lparr> ListOpts := (ListOpts (All_opts fr))\<lparr> ListOpts.Page := page \<rparr> \<rparr>)
            (All_trace fr))"
  by (simp add: All_fetch_def Let_def split: prod.splits option.splits)

lemma All_fetch_PerPage:
  "ListOpts.PerPage (ListOpts (All_opts (snd (All_fetch c page fr))))
     = ListOpts.PerPage (ListOpts (All_opts fr))"
  by (simp add: All_fetch_def Let_def split: prod.splits option.splits)

lemma All_fetch_new_events:
  assumes "ListOpts.PerPage (ListOpts (All_opts t)) = n"
  shows "All_trace (snd (All_fetch c p t)) =
           All_trace t @
           Constructed ''GET''
             (''/ssh_keys?'' @ Encode (valuesForListOpts
                \<lparr> ListOpts.Page = p, ListOpts.PerPage = n \<rparr>)) None
           # (case newRequest c ''GET''
                    (''/ssh_keys?'' @ Encode (valuesForListOpts
                       \<lparr> ListOpts.Page = p, ListOpts.PerPage = n \<rparr>)) None of
                Inl err \<Rightarrow> []
              | Inr req \<Rightarrow> [Sent req])"
  unfolding All_fetch_trace opts_page_update [OF assms] List_trace
  by (simp only: SSHKeyListOpts.simps)

lemma All_events:
  assumes run: "all_from (All_fetch c) page (All_init tr) = Some (r, fr)"
    and path: "path = (\<lambda>p. ''/ssh_keys?'' @ Encode (valuesForListOpts
                      \<lparr> ListOpts.Page = p, ListOpts.PerPage = 50 \<rparr>))"
    and built: "\<And>p. good (Constructed ''GET'' (path p) None)"
    and sent: "\<And>p req. newRequest c ''GET'' (path p) None = Inr req \<Longrightarrow> good (Sent req)"
  shows "\<exists>evs. All_trace fr = tr @ evs \<and> (\<forall>ev \<in> set evs. good ev)"
proof -
  let ?I = "\<lambda>fr. ListOpts.PerPage (ListOpts (All_opts fr)) = 50 \<and>
                 (\<exists>evs. All_trace fr = tr @ evs \<and> (\<forall>ev \<in> set evs. good ev))"
  have "?I fr"
  proof (rule all_from_invariant [OF run, where I = ?I])
    have "All_trace (All_init tr) = tr @ []" by (simp add: All_init_def)
    moreover have "ListOpts.PerPage (ListOpts (All_opts (All_init tr))) = 50"
      by (simp add: All_init_def)
    ultimately show "?I (All_init tr)" by fastforce
  next
    fix p t r t'
    assume inv: "?I t" and fetch: "All_fetch c p t = (r, t')"
    from inv obtain evs where pp: "ListOpts.PerPage (ListOpts (All_opts t)) = 50"
      and evs: "All_trace t = tr @ evs" "\<forall>ev \<in> set evs. good ev"
      by blast
    from fetch have t': "t' = snd (All_fetch c p t)" by simp
    have pp': "ListOpts.PerPage (ListOpts (All_opts t')) = 50"
      unfolding t' All_fetch_PerPage by (rule pp)
    define new where "new = Constructed ''GET'' (path p) None
                  # (case newRequest c ''GET'' (path p) None of
                       Inl err \<Rightarrow> [] | Inr req \<Rightarrow> [Sent req])"
    have "All_trace t' = All_trace t @ new"
      unfolding t' new_def path by (rule All_fetch_new_events [OF pp])
    then have tr': "All_trace t' = tr @ (evs @ new)"
      by (simp only: evs(1) append_assoc)
    have "\<forall>ev \<in> set new. good ev"
    proof (cases "newRequest c ''GET'' (path p) None")
      case (Inl e)
      then have "new = [Constructed ''GET'' (path p) None]"
        by (simp only: new_def sum.case)
      with built [of p] show ?thesis by simp
    next
      case (Inr req)
      then have "new = [Constructed ''GET'' (path p) None, Sent req]"
        by (simp only: new_def sum.case)
      with built [of p] sent [OF Inr] show ?thesis by simp
    qed
    with evs(2) have "\<forall>ev \<in> set (evs @ new). good ev"
      by (simp only: set_append ball_Un)
    with pp' tr' show "?I t'" by blast
  qed
  then show ?thesis by blast
qed

lemma testClient_all:
  "SSHKeyClient_All testClient []
     = Some ((Some [SSHKeyFromSchema key1, SSHKeyFromSchema key2, SSHKeyFromSchema key3], None),
        [Constructed ''GET'' ''/ssh_keys?page=1&per_page=50'' None,
         Sent \<lparr> Method = ''GET'', Path = ''/ssh_keys?page=1&per_page=50'', ReqBody = None \<rparr>,
         Constructed ''GET'' ''/ssh_keys?page=2&per_page=50'' None,
         Sent \<lparr> Method = ''GET'', Path = ''/ssh_keys?page=2&per_page=50'', ReqBody = None \<rparr>])"
proof -
  let ?tr1 = "[Constructed ''GET'' ''/ssh_keys?page=1&per_page=50'' None,
               Sent \<lparr> Method = ''GET'', Path = ''/ssh_keys?page=1&per_page=50'', ReqBody = None \<rparr>]"
  let ?r1 = "Some \<lparr> Raw = \<lparr> StatusCode = 200, Body = ''page1'' \<rparr>, Meta = testMeta ''page1'' \<rparr>"
  let ?r2 = "Some \<lparr> Raw = \<lparr> StatusCode = 200, Body = ''page2'' \<rparr>, Meta = testMeta ''page2'' \<rparr>"
  let ?fr1 = "(All_init [])\<lparr> allSSHKeys := Some [SSHKeyFromSchema key1, SSHKeyFromSchema key2],
        All_opts := \<lparr> ListOpts = \<lparr> ListOpts.Page = 1, ListOpts.PerPage = 50 \<rparr> \<rparr>,
        All_trace := ?tr1 \<rparr>"
  have pp: "ListOpts.PerPage (ListOpts (All_opts (All_init []))) = 50"
    and init: "All_trace (All_init []) = []" "allSSHKeys (All_init []) = Some []"
    by (simp_all add: All_init_def)
  have fetch1: "All_fetch testClient 1 (All_init []) = ((?r1, None), ?fr1)"
    by (simp add: All_fetch_page [OF pp] init testClient_page1 append_slice_Some elems_def)
  have pp1: "ListOpts.PerPage (ListOpts (All_opts ?fr1)) = 50" by simp
  have "\<exists>fr2. All_fetch testClient 2 ?fr1 = ((?r2, None), fr2) \<and>
          allSSHKeys fr2 = Some [SSHKeyFromSchema key1, SSHKeyFromSchema key2, SSHKeyFromSchema key3] \<and>
          All_trace fr2 = ?tr1 @
            [Constructed ''GET'' ''/ssh_keys?page=2&per_page=50'' None,
             Sent \<lparr> Method = ''GET'', Path = ''/ssh_keys?page=2&per_page=50'', ReqBody = None \<rparr>]"
    by (simp add: All_fetch_page [OF pp1] testClient_page2 append_slice_Some elems_def)
  then obtain fr2 where fetch2: "All_fetch testClient 2 ?fr1 = ((?r2, None), fr2)"
    and fr2: "allSSHKeys fr2 = Some [SSHKeyFromSchema key1, SSHKeyFromSchema key2, SSHKeyFromSchema key3]"
      "All_trace fr2 = ?tr1 @
            [Constructed ''GET'' ''/ssh_keys?page=2&per_page=50'' None,
             Sent \<lparr> Method = ''GET'', Path = ''/ssh_keys?page=2&per_page=50'', ReqBody = None \<rparr>]"
    by blast
  have "all_from (All_fetch testClient) 1 (All_init []) = all_from (All_fetch testClient) (1 + 1) ?fr1"
    using fetch1 testMeta_pages(1) by (rule all_from_next)
  also have "\<dots> = Some ((?r2, None), fr2)"
    using fetch2 testMeta_pages(2) by (simp add: all_from_last)
  finally show ?thesis
    using fr2 by (simp add: SSHKeyClient_All_def Client_all_def)
qed

text \<open>
  C5. \<^verbatim>\<open>All\<close> starts with the page size 50; on a frame whose page size is 50 the
  page-fetch closure, called with any page, is the call of \<^verbatim>\<open>List\<close> with that page and the
  page size 50, and it leaves the page size 50 in the frame. So every page is fetched
  with \<^verbatim>\<open>PerPage = 50\<close>, and whenever \<^verbatim>\<open>All\<close> returns, every request it has constructed or
  sent is a \<^verbatim>\<open>GET\<close> of \<^verbatim>\<open>/ssh_keys?\<close> with the encoding of list options whose page size
  is 50.
\<close>

theorem All_fetches_every_page_with_PerPage_50:
  "ListOpts.PerPage (ListOpts (All_opts (All_init tr))) = 50 \<and>
   (ListOpts.PerPage (ListOpts (All_opts fr)) = 50 \<longrightarrow>
      All_fetch c page fr =
        (case SSHKeyClient_List c \<lparr> ListOpts = \<lparr> ListOpts.Page = page, ListOpts.PerPage = 50 \<rparr> \<rparr>
                (All_trace fr) of
           ((sshKeys, resp, Some err), tr1) \<Rightarrow>
             ((resp, Some err),
              fr\<lparr> All_opts := \<lparr> ListOpts = \<lparr> ListOpts.Page = page, ListOpts.PerPage = 50 \<rparr> \<rparr>,
                  All_trace := tr1 \<rparr>)
         | ((sshKeys, resp, None), tr1) \<Rightarrow>
             ((resp, None),
              fr\<lparr> allSSHKeys := append_slice (allSSHKeys fr) sshKeys,
                  All_opts := \<lparr> ListOpts = \<lparr> ListOpts.Page = page, ListOpts.PerPage = 50 \<rparr> \<rparr>,
                  All_trace := tr1 \<rparr>))) \<and>
   (SSHKeyClient_All c tr = Some (res, tr') \<longrightarrow>
      (\<exists>evs. tr' = tr @ evs \<and>
         (\<forall>ev \<in> set evs. \<exists>p.
            ev = Constructed ''GET''
                   (''/ssh_keys?'' @ Encode (valuesForListOpts
                      \<lparr> ListOpts.Page = p, ListOpts.PerPage = 50 \<rparr>)) None \<or>
            (\<exists>req. newRequest c ''GET''
                      (''/ssh_keys?'' @ Encode (valuesForListOpts
                         \<lparr> ListOpts.Page = p, ListOpts.PerPage = 50 \<rparr>)) None = Inr req \<and>
                   ev = Sent req))))"
proof (intro conjI impI)
  show "ListOpts.PerPage (ListOpts (All_opts (All_init tr))) = 50"
    by (simp add: All_init_def)
next
  assume "ListOpts.PerPage (ListOpts (All_opts fr)) = 50"
  then show "All_fetch c page fr =
        (case SSHKeyClient_List c \<lparr> ListOpts = \<lparr> ListOpts.Page = page, ListOpts.PerPage = 50 \<rparr> \<rparr>
                (All_trace fr) of
           ((sshKeys, resp, Some err), tr1) \<Rightarrow>
             ((resp, Some err),
              fr\<lparr> All_opts := \<lparr> ListOpts = \<lparr> ListOpts.Page = page, ListOpts.PerPage = 50 \<rparr> \<rparr>,
                  All_trace := tr1 \<rparr>)
         | ((sshKeys, resp, None), tr1) \<Rightarrow>
             ((resp, None),
              fr\<lparr> allSSHKeys := append_slice (allSSHKeys fr) sshKeys,
                  All_opts := \<lparr> ListOpts = \<lparr> ListOpts.Page = page, ListOpts.PerPage = 50 \<rparr> \<rparr>,
                  All_trace := tr1 \<rparr>))"
    by (rule All_fetch_page)
next
  define path where "path = (\<lambda>p. ''/ssh_keys?'' @ Encode (valuesForListOpts
                      \<lparr> ListOpts.Page = p, ListOpts.PerPage = 50 \<rparr>))"
  define good where "good = (\<lambda>ev. \<exists>p. ev = Constructed ''GET'' (path p) None \<or>
                  (\<exists>req. newRequest c ''GET'' (path p) None = Inr req \<and> ev = Sent req))"
  assume "SSHKeyClient_All c tr = Some (res, tr')"
  then have "SSHKeyClient_All c tr = Some ((fst res, snd res), tr')" by simp
  from All_result [OF this] obtain r fr where
    run: "all_from (All_fetch c) 1 (All_init tr) = Some (r, fr)"
    and trace: "All_trace fr = tr'"
    by blast
  have built: "\<And>p. good (Constructed ''GET'' (path p) None)"
    unfolding good_def by blast
  have sent: "\<And>p req. newRequest c ''GET'' (path p) None = Inr req \<Longrightarrow> good (Sent req)"
    unfolding good_def by blast
  from All_events [OF run path_def built sent] trace
  have "\<exists>evs. tr' = tr @ evs \<and> (\<forall>ev \<in> set evs. good ev)"
    by simp
  then show "\<exists>evs. tr' = tr @ evs \<and>
         (\<forall>ev \<in> set evs. \<exists>p.
            ev = Constructed ''GET''
                   (''/ssh_keys?'' @ Encode (valuesForListOpts
                      \<lparr> ListOpts.Page = p, ListOpts.PerPage = 50 \<rparr>)) None \<or>
            (\<exists>req. newRequest c ''GET''
                      (''/ssh_keys?'' @ Encode (valuesForListOpts
                         \<lparr> ListOpts.Page = p, ListOpts.PerPage = 50 \<rparr>)) None = Inr req \<and>
                   ev = Sent req))"
    unfolding good_def path_def .
qed

theorem All_fetches_every_page_with_PerPage_50_witness:
  "ListOpts.PerPage (ListOpts (All_opts (All_init []))) = 50 \<and>
   All_fetch testClient 1 (All_init []) =
     ((Some \<lparr> Raw = \<lparr> StatusCode = 200, Body = ''page1'' \<rparr>, Meta = testMeta ''page1'' \<rparr>, None),
      (All_init [])\<lparr> allSSHKeys := Some [SSHKeyFromSchema key1, SSHKeyFromSchema key2],
        All_opts := \<lparr> ListOpts = \<lparr> ListOpts.Page = 1, ListOpts.PerPage = 50 \<rparr> \<rparr>,
        All_trace :=
          [Constructed ''GET'' ''/ssh_keys?page=1&per_page=50'' None,
           Sent \<lparr> Method = ''GET'', Path = ''/ssh_keys?page=1&per_page=50'', ReqBody = None \<rparr>] \<rparr>) \<and>
   (\<exists>evs.
      [Constructed ''GET'' ''/ssh_keys?page=1&per_page=50'' None,
       Sent \<lparr> Method = ''GET'', Path = ''/ssh_keys?page=1&per_page=50'', ReqBody = None \<rparr>,
       Constructed ''GET'' ''/ssh_keys?page=2&per_page=50'' None,
       Sent \<lparr> Method = ''GET'', Path = ''/ssh_keys?page=2&per_page=50'', ReqBody = None \<rparr>]
        = [] @ evs \<and>
      (\<forall>ev \<in> set evs. \<exists>p.
          ev = Constructed ''GET''
                 (''/ssh_keys?'' @ Encode (valuesForListOpts
                    \<lparr> ListOpts.Page = p, ListOpts.PerPage = 50 \<rparr>)) None \<or>
          (\<exists>req. newRequest testClient ''GET''
                    (''/ssh_keys?'' @ Encode (valuesForListOpts
                       \<lparr> ListOpts.Page = p, ListOpts.PerPage = 50 \<rparr>)) None = Inr req \<and>
                 ev = Sent req)))"
proof -
  have pp: "ListOpts.PerPage (ListOpts (All_opts (All_init []))) = 50"
    and init: "All_trace (All_init []) = []" "allSSHKeys (All_init []) = Some []"
    by (simp_all add: All_init_def)
  note run = All_fetches_every_page_with_PerPage_50
    [of "[]" "All_init []" testClient 1
        "(Some [SSHKeyFromSchema key1, SSHKeyFromSchema key2, SSHKeyFromSchema key3], None)"
        "[Constructed ''GET'' ''/ssh_keys?page=1&per_page=50'' None,
          Sent \<lparr> Method = ''GET'', Path = ''/ssh_keys?page=1&per_page=50'', ReqBody = None \<rparr>,
          Constructed ''GET'' ''/ssh_keys?page=2&per_page=50'' None,
          Sent \<lparr> Method = ''GET'', Path = ''/ssh_keys?page=2&per_page=50'', ReqBody = None \<rparr>]"]
  from run pp have "All_fetch testClient 1 (All_init []) =
        (case SSHKeyClient_List testClient
                \<lparr> ListOpts = \<lparr> ListOpts.Page = 1, ListOpts.PerPage = 50 \<rparr> \<rparr>
                (All_trace (All_init [])) of
           ((sshKeys, resp, Some err), tr1) \<Rightarrow>
             ((resp, Some err),
              (All_init [])\<lparr> All_opts := \<lparr> ListOpts = \<lparr> ListOpts.Page = 1, ListOpts.PerPage = 50 \<rparr> \<rparr>,
                  All_trace := tr1 \<rparr>)
         | ((sshKeys, resp, None), tr1) \<Rightarrow>
             ((resp, None),
              (All_init [])\<lparr> allSSHKeys := append_slice (allSSHKeys (All_init [])) sshKeys,
                  All_opts := \<lparr> ListOpts = \<lparr> ListOpts.Page = 1, ListOpts.PerPage = 50 \<rparr> \<rparr>,
                  All_trace := tr1 \<rparr>))"
    by blast
  then have fetch: "All_fetch testClient 1 (All_init []) =
     ((Some \<lparr> Raw = \<lparr> StatusCode = 200, Body = ''page1'' \<rparr>, Meta = testMeta ''page1'' \<rparr>, None),
      (All_init [])\<lparr> allSSHKeys := Some [SSHKeyFromSchema key1, SSHKeyFromSchema key2],
        All_opts := \<lparr> ListOpts = \<lparr> ListOpts.Page = 1, ListOpts.PerPage = 50 \<rparr> \<rparr>,
        All_trace :=
          [Constructed ''GET'' ''/ssh_keys?page=1&per_page=50'' None,
           Sent \<lparr> Method = ''GET'', Path = ''/ssh_keys?page=1&per_page=50'', ReqBody = None \<rparr>] \<rparr>)"
    by (simp add: init testClient_page1 append_slice_Some elems_def)
  from run testClient_all pp fetch show ?thesis
    by blast
qed

end
